theory Spec2Isabelle
  imports Main "HOL-Library.Sublist"
begin

section \<open>Python values and primitives used by the generation endpoint\<close>

text \<open>
  The source is \<^verbatim>\<open>src/lambda/nl2sql/lambda_function.py\<close>. Python strings are modelled
  as \<^typ>\<open>string\<close>; a \<^typ>\<open>char\<close> stands for a code point below 256.
\<close>

definition dquote :: char where
  "dquote = CHR 0x22"

definition backslash :: char where
  "backslash = CHR 0x5C"

definition squote :: char where
  "squote = CHR 0x27"

text \<open>\<^verbatim>\<open>str.isspace\<close> on one character, for the code points below 256.\<close>

definition isspace :: "char \<Rightarrow> bool" where
  "isspace c =
     (let n = (of_char c :: nat)
      in (9 \<le> n \<and> n \<le> 13) \<or> (28 \<le> n \<and> n \<le> 32) \<or> n = 133 \<or> n = 160)"

text \<open>
  \<^verbatim>\<open>s.strip()\<close> and \<^verbatim>\<open>s.strip(chars)\<close>: every leading and every trailing
  character of the given class is removed.
\<close>

definition strip_chars :: "(char \<Rightarrow> bool) \<Rightarrow> string \<Rightarrow> string" where
  "strip_chars P s = rev (dropWhile P (rev (dropWhile P s)))"

definition strip :: "string \<Rightarrow> string" where
  "strip s = strip_chars isspace s"

definition strip_quotes :: "string \<Rightarrow> string" where
  "strip_quotes s = strip_chars (\<lambda>c. c = dquote) s"

text \<open>
  \<^verbatim>\<open>s.replace(old, new)\<close>: one scan from the left over non-overlapping occurrences.
\<close>

function str_replace :: "string \<Rightarrow> string \<Rightarrow> string \<Rightarrow> string" where
  "str_replace old new [] = (if old = [] then new else [])"
| "str_replace old new (c # s) =
     (if old = [] then new @ c # str_replace old new s
      else if prefix old (c # s)
        then new @ str_replace old new (drop (length old) (c # s))
      else c # str_replace old new s)"
  by pat_completeness auto
termination
  by (relation "measure (\<lambda>(old, new, s). length s)") (auto simp: neq_Nil_conv)

definition startswith :: "string \<Rightarrow> string \<Rightarrow> bool" where
  "startswith s p = prefix p s"

text \<open>The decimal rendering of a status code inside an f-string.\<close>

fun str_of_nat :: "nat \<Rightarrow> string" where
  "str_of_nat n =
     (if n < 10 then [''0123456789'' ! n]
      else str_of_nat (n div 10) @ [''0123456789'' ! (n mod 10)])"

text \<open>\<^verbatim>\<open>str.lower\<close> on one character, for the code points below 256.\<close>

definition char_lower :: "char \<Rightarrow> char" where
  "char_lower c =
     (let n = (of_char c :: nat)
      in if (65 \<le> n \<and> n \<le> 90) \<or> (192 \<le> n \<and> n \<le> 222 \<and> n \<noteq> 215)
         then char_of (n + 32) else c)"

text \<open>
  A Python float is a finite dyadic number \<open>m * 2 ^ e\<close>, an infinity or a NaN.
\<close>

datatype pyfloat = Finite int int | Infinite | NaN

text \<open>What \<^verbatim>\<open>json.loads\<close> and \<^verbatim>\<open>Response.json()\<close> produce.\<close>

datatype json =
    JNull
  | JBool bool
  | JInt int
  | JFloat pyfloat
  | JStr string
  | JArr "json list"
  | JObj "(string \<times> json) list"

text \<open>
  The exceptions of the source: the three httpx/parsing classes its handlers name, the
  built-in ones raised by operations on values of the wrong shape, and
  \<^verbatim>\<open>Exception(msg)\<close>.
\<close>

datatype exn =
    HTTPStatusError nat
  | RequestError
  | ValueError
  | AttributeError
  | TypeError
  | KeyError
  | IndexError
  | OverflowError
  | Exception string

text \<open>Truth value of a decoded JSON value (\<^verbatim>\<open>not x\<close> is its negation).\<close>

fun truthy :: "json \<Rightarrow> bool" where
  "truthy JNull = False"
| "truthy (JBool b) = b"
| "truthy (JInt n) = (n \<noteq> 0)"
| "truthy (JFloat (Finite m e)) = (m \<noteq> 0)"
| "truthy (JFloat Infinite) = True"
| "truthy (JFloat NaN) = True"
| "truthy (JStr s) = (s \<noteq> [])"
| "truthy (JArr xs) = (xs \<noteq> [])"
| "truthy (JObj kvs) = (kvs \<noteq> [])"

text \<open>\<^verbatim>\<open>isinstance(x, list)\<close> and \<^verbatim>\<open>isinstance(x, str)\<close>.\<close>

fun is_list :: "json \<Rightarrow> bool" where
  "is_list (JArr xs) = True"
| "is_list _ = False"

fun is_str :: "json \<Rightarrow> bool" where
  "is_str (JStr s) = True"
| "is_str _ = False"

text \<open>\<^verbatim>\<open>x.get(key, default)\<close>: only a dict has the method.\<close>

fun dict_get :: "json \<Rightarrow> string \<Rightarrow> json \<Rightarrow> exn + json" where
  "dict_get (JObj kvs) k d = Inr (case map_of kvs k of Some v \<Rightarrow> v | None \<Rightarrow> d)"
| "dict_get _ k d = Inl AttributeError"

text \<open>\<^verbatim>\<open>x[key]\<close> with a string key.\<close>

fun subscript_key :: "json \<Rightarrow> string \<Rightarrow> exn + json" where
  "subscript_key (JObj kvs) k = (case map_of kvs k of Some v \<Rightarrow> Inr v | None \<Rightarrow> Inl KeyError)"
| "subscript_key _ k = Inl TypeError"

text \<open>
  \<^verbatim>\<open>x[0]\<close>. The keys of a decoded JSON object are strings, so \<open>0\<close> is never one.
\<close>

fun subscript0 :: "json \<Rightarrow> exn + json" where
  "subscript0 (JArr []) = Inl IndexError"
| "subscript0 (JArr (x # xs)) = Inr x"
| "subscript0 (JStr []) = Inl IndexError"
| "subscript0 (JStr (c # s)) = Inr (JStr [c])"
| "subscript0 (JObj kvs) = Inl KeyError"
| "subscript0 _ = Inl TypeError"

text \<open>\<^verbatim>\<open>x.strip()\<close>: only a string has the method.\<close>

fun py_strip :: "json \<Rightarrow> exn + string" where
  "py_strip (JStr s) = Inr (strip s)"
| "py_strip _ = Inl AttributeError"

text \<open>\<^verbatim>\<open>x.lower()\<close>.\<close>

fun py_lower :: "json \<Rightarrow> exn + string" where
  "py_lower (JStr s) = Inr (map char_lower s)"
| "py_lower _ = Inl AttributeError"

text \<open>\<^verbatim>\<open>for entry in x\<close>: the elements of a list, the characters of a string, the keys of a dict.\<close>

fun iterate :: "json \<Rightarrow> exn + json list" where
  "iterate (JArr xs) = Inr xs"
| "iterate (JStr s) = Inr (map (\<lambda>c. JStr [c]) s)"
| "iterate (JObj kvs) = Inr (map (\<lambda>kv. JStr (fst kv)) kvs)"
| "iterate _ = Inl TypeError"

section \<open>The network\<close>

text \<open>
  One \<^verbatim>\<open>client.post\<close>: either httpx raises a \<^verbatim>\<open>RequestError\<close> (connection failure,
  timeout), or a response arrives with a status code and a body; the body is \<open>None\<close>
  when \<^verbatim>\<open>Response.json()\<close> raises a \<^verbatim>\<open>ValueError\<close> on it.
\<close>

datatype post_result = RequestFailed | Response nat "json option"

definition is_success :: "nat \<Rightarrow> bool" where
  "is_success st = (200 \<le> st \<and> st \<le> 299)"

text \<open>
  \<^verbatim>\<open>r = await client.post(...); r.raise_for_status(); r.json()\<close>
\<close>

fun post_json :: "post_result \<Rightarrow> exn + json" where
  "post_json RequestFailed = Inl RequestError"
| "post_json (Response st b) =
     (if is_success st
      then (case b of None \<Rightarrow> Inl ValueError | Some j \<Rightarrow> Inr j)
      else Inl (HTTPStatusError st))"

record conn =
  host :: json
  dbname :: json
  port :: int
  user :: json
  password :: json

text \<open>
  The body and the bearer token of a completion request. The sampling temperature is the
  constant 0.2 in both requests and is left out.
\<close>

record chat_request =
  bearer :: string
  model :: string
  messages :: "(string \<times> string) list"
  max_tokens :: nat

text \<open>
  The world outside one request: the two services, each answering a request with one
  \<^typ>\<open>post_result\<close>; the environment variables; and two library functions the model takes
  as given: the rendering of the system prompt
  (\<^verbatim>\<open>SYSTEM_PROMPT_TEMPLATE.format(json.dumps(table_structure, indent=2))\<close>, which does not
  raise on a decoded JSON value) and \<^verbatim>\<open>int(s)\<close> on a string (\<open>None\<close>: ValueError).
  The first and the follow-up completion request differ (two and four messages), so a
  function of the request scripts the service's answer to each of them independently.
\<close>

record world =
  schema_api :: "conn \<Rightarrow> post_result"
  xai_api :: "chat_request \<Rightarrow> post_result"
  render_prompt :: "json \<Rightarrow> string"
  int_of_str :: "string \<Rightarrow> int option"
  XAI_API_KEY :: "string option"
  XAI_MODEL :: string
  DB_USER :: "string option"
  DB_PASSWORD :: "string option"

text \<open>Every network call of a run is recorded, in order.\<close>

datatype call = SchemaCall conn | ChatCall chat_request

fun is_chat_call :: "call \<Rightarrow> bool" where
  "is_chat_call (ChatCall p) = True"
| "is_chat_call (SchemaCall c) = False"

definition chat_calls :: "call list \<Rightarrow> call list" where
  "chat_calls log = filter is_chat_call log"

section \<open>Schema fetcher\<close>

definition fetch_table_structure :: "world \<Rightarrow> conn \<Rightarrow> call list \<times> (exn + json)" where
  "fetch_table_structure w c =
     ([SchemaCall c],
      case post_json (schema_api w c) of
        Inr j \<Rightarrow> Inr j
      | Inl (HTTPStatusError st) \<Rightarrow> Inl (Exception ''Failed to fetch table structure'')
      | Inl RequestError \<Rightarrow> Inl (Exception ''Failed to fetch table structure'')
      | Inl ValueError \<Rightarrow> Inl (Exception ''Invalid schema API response format'')
      | Inl e \<Rightarrow> Inl e)"

text \<open>
  The set comprehension \<^verbatim>\<open>{entry["table_name"].lower() for entry in table_structure}\<close>,
  element by element; the first exception ends it.
\<close>

fun table_names :: "json list \<Rightarrow> exn + string list" where
  "table_names [] = Inr []"
| "table_names (entry # rest) =
     (case subscript_key entry ''table_name'' of
        Inl e \<Rightarrow> Inl e
      | Inr v \<Rightarrow>
          (case py_lower v of
             Inl e \<Rightarrow> Inl e
           | Inr name \<Rightarrow>
               (case table_names rest of
                  Inl e \<Rightarrow> Inl e
                | Inr names \<Rightarrow> Inr (name # names))))"

definition get_valid_tables :: "world \<Rightarrow> conn \<Rightarrow> call list \<times> (exn + string set \<times> json)" where
  "get_valid_tables w c =
     (case fetch_table_structure w c of
        (log, Inl e) \<Rightarrow> (log, Inl e)
      | (log, Inr table_structure) \<Rightarrow>
          (case iterate table_structure of
             Inl e \<Rightarrow> (log, Inl e)
           | Inr entries \<Rightarrow>
               (case table_names entries of
                  Inl e \<Rightarrow> (log, Inl e)
                | Inr names \<Rightarrow> (log, Inr (set names, table_structure)))))"

section \<open>Generation client\<close>

text \<open>Sequencing of operations that may raise: the first exception ends the sequence.\<close>

fun and_then :: "exn + 'a \<Rightarrow> ('a \<Rightarrow> exn + 'b) \<Rightarrow> exn + 'b" where
  "and_then (Inl e) f = Inl e"
| "and_then (Inr x) f = f x"

text \<open>
  Lines 117 to 122: the structure check of the first response and the read of the
  content. \<open>Inr None\<close> is the early
  \<^verbatim>\<open>return "", "Invalid API response structure"\<close>.
\<close>

definition first_response_content :: "json \<Rightarrow> exn + json option" where
  "first_response_content response_data =
     and_then (dict_get response_data ''choices'' (JArr [])) (\<lambda>choices.
       if \<not> truthy choices \<or> \<not> is_list choices then Inr None
       else
         and_then (subscript0 choices) (\<lambda>choice0.
         and_then (dict_get choice0 ''message'' JNull) (\<lambda>message.
           if \<not> truthy message then Inr None
           else
             and_then (subscript_key choice0 ''message'') (\<lambda>m.
             and_then (dict_get m ''content'' (JStr [])) (\<lambda>content.
               Inr (Some content))))))"

text \<open>
  Lines 156 to 161: the same for the follow-up response, without the
  \<^verbatim>\<open>isinstance\<close> test. \<open>Inr None\<close> is the early
  \<^verbatim>\<open>return "", "Failed to determine error reason"\<close>.
\<close>

definition follow_up_response_content :: "json \<Rightarrow> exn + json option" where
  "follow_up_response_content follow_up_response =
     and_then (dict_get follow_up_response ''choices'' (JArr [])) (\<lambda>follow_up_choices.
       if \<not> truthy follow_up_choices then Inr None
       else
         and_then (subscript0 follow_up_choices) (\<lambda>choice0.
         and_then (dict_get choice0 ''message'' JNull) (\<lambda>message.
           if \<not> truthy message then Inr None
           else
             and_then (subscript_key choice0 ''message'') (\<lambda>m.
             and_then (dict_get m ''content'' (JStr [])) (\<lambda>content.
               Inr (Some content))))))"

text \<open>
  Line 126, after \<^verbatim>\<open>content\<close> is known to be a string:
  \<^verbatim>\<open>content.strip().strip('"').replace('\\"', '')\<close>
\<close>

definition sanitize :: "string \<Rightarrow> string" where
  "sanitize content = str_replace [backslash, dquote] [] (strip_quotes (strip content))"

text \<open>Line 132: \<^verbatim>\<open>sql_query == "X" or sql_query.startswith("X")\<close>\<close>

definition is_sentinel :: "string \<Rightarrow> bool" where
  "is_sentinel sql_query = (sql_query = ''X'' \<or> startswith sql_query ''X'')"

definition follow_up_prompt :: "string \<Rightarrow> string" where
  "follow_up_prompt nl_instruction =
     ''You failed to generate an SQL query for the instruction: '' @ [squote] @ nl_instruction
       @ [squote] @ ''. ''
     @ ''Please explain why the query could not be generated ''
     @ ''(e.g., non-existent table, invalid column, ambiguous instruction). ''
     @ ''Provide a specific, non-empty explanation.''"

definition first_payload :: "world \<Rightarrow> string \<Rightarrow> string \<Rightarrow> string \<Rightarrow> chat_request" where
  "first_payload w api_key nl_instruction system_prompt =
     \<lparr>bearer = api_key, model = XAI_MODEL w,
      messages = [(''system'', system_prompt), (''user'', nl_instruction)],
      max_tokens = 512\<rparr>"

definition follow_up_payload ::
  "world \<Rightarrow> string \<Rightarrow> string \<Rightarrow> string \<Rightarrow> string \<Rightarrow> chat_request" where
  "follow_up_payload w api_key nl_instruction system_prompt content =
     \<lparr>bearer = api_key, model = XAI_MODEL w,
      messages = [(''system'', system_prompt), (''user'', nl_instruction),
                  (''assistant'', content), (''user'', follow_up_prompt nl_instruction)],
      max_tokens = 512\<rparr>"

text \<open>Lines 133 to 168: the follow-up request and what is made of its response.\<close>

definition follow_up ::
  "world \<Rightarrow> string \<Rightarrow> string \<Rightarrow> string \<Rightarrow> string \<Rightarrow> call list \<times> (exn + string \<times> string)" where
  "follow_up w api_key nl_instruction system_prompt content =
     (let payload = follow_up_payload w api_key nl_instruction system_prompt content
      in ([ChatCall payload],
          and_then (post_json (xai_api w payload)) (\<lambda>follow_up_response.
          and_then (follow_up_response_content follow_up_response) (\<lambda>found.
            case found of
              None \<Rightarrow> Inr ([], ''Failed to determine error reason'')
            | Some follow_up_content \<Rightarrow>
                and_then (py_strip follow_up_content) (\<lambda>error_reason.
                  Inr ([], if error_reason = [] then ''Failed to determine error reason''
                           else error_reason))))))"

text \<open>Lines 108 to 170: the body of the \<^verbatim>\<open>try\<close>.\<close>

definition completion ::
  "world \<Rightarrow> string \<Rightarrow> string \<Rightarrow> string \<Rightarrow> call list \<times> (exn + string \<times> string)" where
  "completion w api_key nl_instruction system_prompt =
     (let payload = first_payload w api_key nl_instruction system_prompt
      in case and_then (post_json (xai_api w payload)) first_response_content of
           Inl e \<Rightarrow> ([ChatCall payload], Inl e)
         | Inr None \<Rightarrow> ([ChatCall payload], Inr ([], ''Invalid API response structure''))
         | Inr (Some (JStr content)) \<Rightarrow>
             (let sql_query = sanitize content
              in if is_sentinel sql_query
                 then (case follow_up w api_key nl_instruction system_prompt content of
                         (log, r) \<Rightarrow> (ChatCall payload # log, r))
                 else ([ChatCall payload], Inr (sql_query, [])))
         | Inr (Some other) \<Rightarrow> ([ChatCall payload], Inl AttributeError))"

text \<open>Lines 172 to 180: the three \<^verbatim>\<open>except\<close> clauses; any other exception propagates.\<close>

fun api_except :: "exn + string \<times> string \<Rightarrow> exn + string \<times> string" where
  "api_except (Inl (HTTPStatusError st)) = Inr ([], ''API error: '' @ str_of_nat st)"
| "api_except (Inl RequestError) = Inr ([], ''API request failed'')"
| "api_except (Inl ValueError) = Inr ([], ''Invalid API response format'')"
| "api_except r = r"

text \<open>
  \<^verbatim>\<open>XAIClient.generate_sql\<close>: the result is the pair \<open>(sql_query, error_reason)\<close>, or an
  exception that no handler of the method catches.
\<close>

definition generate_sql ::
  "world \<Rightarrow> string \<Rightarrow> string \<Rightarrow> conn \<Rightarrow> call list \<times> (exn + string \<times> string)" where
  "generate_sql w api_key nl_instruction c =
     (case get_valid_tables w c of
        (log, Inl e) \<Rightarrow> (log, Inr ([], ''Failed to fetch table structure''))
      | (log, Inr (valid_tables, table_structure)) \<Rightarrow>
          (let system_prompt = render_prompt w table_structure
           in case completion w api_key nl_instruction system_prompt of
                (log', r) \<Rightarrow> (log @ log', api_except r)))"

section \<open>The exposed endpoint\<close>

text \<open>
  The request body as the handler sees it: absent (no \<^verbatim>\<open>body\<close> key, \<^verbatim>\<open>None\<close> or the
  empty string, replaced by \<^verbatim>\<open>"{}"\<close>), text on which \<^verbatim>\<open>json.loads\<close> raises
  \<^verbatim>\<open>JSONDecodeError\<close>, or text that decodes to a value.
\<close>

datatype request_body = Absent | Malformed | Decoded json

text \<open>
  The dict passed to \<^verbatim>\<open>json.dumps\<close> for the response body: \<^verbatim>\<open>{"error": msg}\<close>,
  \<^verbatim>\<open>{"error": str(e)}\<close> or \<^verbatim>\<open>{"sql_query": s, "error_reason": r}\<close>.
\<close>

datatype response_body = ErrorMessage string | ErrorOf exn | Outcome string string

record response =
  statusCode :: nat
  headers :: "(string \<times> string) list"
  body :: response_body

definition DEFAULT_DB_HOST :: string where
  "DEFAULT_DB_HOST = ''chatdb.cxcuaw08ibd5.us-east-2.rds.amazonaws.com''"

definition DEFAULT_DB_NAME :: string where
  "DEFAULT_DB_NAME = ''banking''"

definition DEFAULT_DB_PORT :: int where
  "DEFAULT_DB_PORT = 5432"

definition reply :: "nat \<Rightarrow> response_body \<Rightarrow> response" where
  "reply st b =
     \<lparr>statusCode = st, headers = [(''Access-Control-Allow-Origin'', ''*'')], body = b\<rparr>"

fun decode_body :: "request_body \<Rightarrow> json option" where
  "decode_body Absent = Some (JObj [])"
| "decode_body Malformed = None"
| "decode_body (Decoded j) = Some j"

text \<open>\<^verbatim>\<open>os.environ.get(name)\<close> as a Python value.\<close>

fun environ_value :: "string option \<Rightarrow> json" where
  "environ_value None = JNull"
| "environ_value (Some s) = JStr s"

text \<open>\<^verbatim>\<open>int(x)\<close> on a decoded JSON value; a float is truncated towards zero.\<close>

fun py_int :: "world \<Rightarrow> json \<Rightarrow> exn + int" where
  "py_int w (JInt n) = Inr n"
| "py_int w (JBool b) = Inr (if b then 1 else 0)"
| "py_int w (JFloat (Finite m e)) =
     Inr (if 0 \<le> e then m * 2 ^ nat e else sgn m * (\<bar>m\<bar> div 2 ^ nat (- e)))"
| "py_int w (JFloat Infinite) = Inl OverflowError"
| "py_int w (JFloat NaN) = Inl ValueError"
| "py_int w (JStr s) = (case int_of_str w s of None \<Rightarrow> Inl ValueError | Some n \<Rightarrow> Inr n)"
| "py_int w _ = Inl TypeError"

text \<open>Lines 205 to 209.\<close>

definition conn_params :: "world \<Rightarrow> json \<Rightarrow> exn + conn" where
  "conn_params w data =
     and_then (dict_get data ''host'' (JStr DEFAULT_DB_HOST)) (\<lambda>h.
     and_then (dict_get data ''dbname'' (JStr DEFAULT_DB_NAME)) (\<lambda>d.
     and_then (and_then (dict_get data ''port'' (JInt DEFAULT_DB_PORT)) (py_int w)) (\<lambda>p.
     and_then (dict_get data ''db_user'' (environ_value (DB_USER w))) (\<lambda>u.
     and_then (dict_get data ''db_password'' (environ_value (DB_PASSWORD w))) (\<lambda>pw.
       Inr \<lparr>host = h, dbname = d, port = p, user = u, password = pw\<rparr>)))))"

text \<open>\<^verbatim>\<open>XAIClient.__init__\<close>: a missing or empty key raises \<^verbatim>\<open>ValueError\<close>.\<close>

fun XAIClient :: "string option \<Rightarrow> exn + string" where
  "XAIClient None = Inl ValueError"
| "XAIClient (Some api_key) = (if api_key = [] then Inl ValueError else Inr api_key)"

text \<open>
  \<^verbatim>\<open>_handle\<close>: a response, or an exception raised outside the handler's
  \<^verbatim>\<open>try\<close> blocks.
\<close>

definition missing_query :: response where
  "missing_query =
     reply 400 (ErrorMessage (''Missing or invalid '' @ [squote] @ ''query'' @ [squote] @ '' field''))"

text \<open>Lines 212 to 234: the \<^verbatim>\<open>try\<close> around the client, for the instruction \<^verbatim>\<open>nl.strip()\<close>.\<close>

definition run_client :: "world \<Rightarrow> string \<Rightarrow> conn \<Rightarrow> call list \<times> response" where
  "run_client w instruction c =
     (case XAIClient (XAI_API_KEY w) of
        Inl e \<Rightarrow> ([], reply 502 (ErrorOf e))
      | Inr api_key \<Rightarrow>
          (case generate_sql w api_key instruction c of
             (log, Inl e) \<Rightarrow> (log, reply 502 (ErrorOf e))
           | (log, Inr (sql_query, error_reason)) \<Rightarrow>
               if sql_query = []
               then (log, reply 200 (Outcome [] error_reason))
               else (log, reply 200 (Outcome sql_query []))))"

text \<open>
  \<^verbatim>\<open>_handle\<close>: a response, or an exception raised outside the handler's
  \<^verbatim>\<open>try\<close> blocks.
\<close>

definition handle :: "world \<Rightarrow> request_body \<Rightarrow> call list \<times> (exn + response)" where
  "handle w ev =
     (case decode_body ev of
        None \<Rightarrow> ([], Inr (reply 400 (ErrorMessage ''Invalid JSON in request body'')))
      | Some data \<Rightarrow>
          (case dict_get data ''query'' JNull of
             Inl e \<Rightarrow> ([], Inl e)
           | Inr (JStr nl) \<Rightarrow>
               if strip nl = [] then ([], Inr missing_query)
               else
                 (case conn_params w data of
                    Inl e \<Rightarrow> ([], Inl e)
                  | Inr c \<Rightarrow>
                      (case run_client w (strip nl) c of (log, r) \<Rightarrow> (log, Inr r)))
           | Inr other \<Rightarrow> ([], Inr missing_query)))"

section \<open>Scripted collaborators for concrete runs\<close>

text \<open>
  A well-formed completion response carrying the given text, a one-row schema, a world
  whose schema service and completion service (first request, follow-up request) answer
  as scripted, and connection parameters.
\<close>

definition chat_body :: "string \<Rightarrow> json" where
  "chat_body s =
     JObj [(''choices'',
       JArr [JObj [(''message'', JObj [(''role'', JStr ''assistant''), (''content'', JStr s)])]])]"

definition chat_reply :: "string \<Rightarrow> post_result" where
  "chat_reply s = Response 200 (Some (chat_body s))"

definition schema_rows :: json where
  "schema_rows = JArr [JObj [(''table_name'', JStr ''customers''), (''column_name'', JStr ''lastname''),
      (''data_type'', JStr ''text''), (''ordinal_position'', JInt 3)]]"

definition scripted :: "post_result \<Rightarrow> post_result \<Rightarrow> post_result \<Rightarrow> world" where
  "scripted schema first second =
     \<lparr>schema_api = (\<lambda>c. schema),
      xai_api = (\<lambda>p. if length (messages p) = 2 then first else second),
      render_prompt = (\<lambda>j. ''prompt''), int_of_str = (\<lambda>s. None),
      XAI_API_KEY = Some ''key'', XAI_MODEL = ''grok-3-beta'', DB_USER = None, DB_PASSWORD = None\<rparr>"

definition conn0 :: conn where
  "conn0 = \<lparr>host = JStr ''h'', dbname = JStr ''d'', port = 5432, user = JNull, password = JNull\<rparr>"

definition no_content_body :: json where
  "no_content_body =
     JObj [(''choices'', JArr [JObj [(''message'', JObj [(''role'', JStr ''assistant'')])]])]"

definition cors :: "(string \<times> string) list" where
  "cors = [(''Access-Control-Allow-Origin'', ''*'')]"

section \<open>Notions used to state the properties of sanitization\<close>

text \<open>\<^verbatim>\<open>sep.join(parts)\<close>: a text cut at the occurrences of a separator.\<close>

fun str_join :: "string \<Rightarrow> string list \<Rightarrow> string" where
  "str_join sep [] = []"
| "str_join sep [p] = p"
| "str_join sep (p # q # ps) = p @ sep @ str_join sep (q # ps)"



section \<open>Schema fetch failure\<close>

lemma fst_fetch_table_structure: "fst (fetch_table_structure w c) = [SchemaCall c]"
  by (simp add: fetch_table_structure_def)

lemma fst_get_valid_tables: "fst (get_valid_tables w c) = [SchemaCall c]"
  by (simp add: get_valid_tables_def fetch_table_structure_def split: sum.splits)

lemma generate_sql_schema_failure:
  assumes "snd (get_valid_tables w c) = Inl e"
  shows "generate_sql w k nl c = ([SchemaCall c], Inr ([], ''Failed to fetch table structure''))"
proof -
  have "get_valid_tables w c = ([SchemaCall c], Inl e)"
    using assms fst_get_valid_tables [of w c] by (cases "get_valid_tables w c") simp
  then show ?thesis by (simp add: generate_sql_def)
qed

lemma generate_sql_schema_ok:
  assumes "snd (get_valid_tables w c) = Inr (tables, ts)"
  shows "generate_sql w k nl c =
           (SchemaCall c # fst (completion w k nl (render_prompt w ts)),
            api_except (snd (completion w k nl (render_prompt w ts))))"
proof -
  have "get_valid_tables w c = ([SchemaCall c], Inr (tables, ts))"
    using assms fst_get_valid_tables [of w c] by (cases "get_valid_tables w c") simp
  then show ?thesis by (simp add: generate_sql_def split: prod.splits)
qed

lemma get_valid_tables_post_failure:
  assumes "post_json (schema_api w c) = Inl e"
  shows "\<exists>e'. snd (get_valid_tables w c) = Inl e'"
  using assms
  by (cases e) (simp_all add: get_valid_tables_def fetch_table_structure_def)

lemma get_valid_tables_rows_failure:
  assumes "post_json (schema_api w c) = Inr j" and "and_then (iterate j) table_names = Inl e"
  shows "snd (get_valid_tables w c) = Inl e"
proof (cases "iterate j")
  case (Inl a)
  with assms show ?thesis
    by (simp add: get_valid_tables_def fetch_table_structure_def)
next
  case (Inr entries)
  with assms show ?thesis
    by (simp add: get_valid_tables_def fetch_table_structure_def)
qed

lemma get_valid_tables_fails:
  assumes "schema_api w c = RequestFailed
           \<or> (\<exists>st b. schema_api w c = Response st b \<and> \<not> is_success st)
           \<or> (\<exists>st. schema_api w c = Response st None)
           \<or> (\<exists>st j e. schema_api w c = Response st (Some j) \<and> and_then (iterate j) table_names = Inl e)"
  shows "\<exists>e. snd (get_valid_tables w c) = Inl e"
proof -
  consider (transport) "schema_api w c = RequestFailed"
    | (status) st b where "schema_api w c = Response st b" "\<not> is_success st"
    | (body) st where "schema_api w c = Response st None"
    | (rows) st j e where "schema_api w c = Response st (Some j)"
        "and_then (iterate j) table_names = Inl e"
    using assms by blast
  then show ?thesis
  proof cases
    case transport
    then have "post_json (schema_api w c) = Inl RequestError" by simp
    then show ?thesis by (rule get_valid_tables_post_failure)
  next
    case status
    then have "post_json (schema_api w c) = Inl (HTTPStatusError st)" by simp
    then show ?thesis by (rule get_valid_tables_post_failure)
  next
    case body
    then have "\<exists>e. post_json (schema_api w c) = Inl e" by simp
    then show ?thesis using get_valid_tables_post_failure by blast
  next
    case rows
    show ?thesis
    proof (cases "is_success st")
      case True
      with rows have "post_json (schema_api w c) = Inr j" by simp
      then show ?thesis using rows(2) get_valid_tables_rows_failure by blast
    next
      case False
      with rows have "post_json (schema_api w c) = Inl (HTTPStatusError st)" by simp
      then show ?thesis by (rule get_valid_tables_post_failure)
    qed
  qed
qed

text \<open>
  Claim C2. If the schema fetch fails (the request fails in transport, the status is not
  2xx, the body does not parse, or the rows are not of the expected shape), the run makes
  the schema call and no call to the completion service, and its outcome is the empty
  SQL with the reason "Failed to fetch table structure".
\<close>

theorem schema_failure_short_circuits:
  assumes "schema_api w c = RequestFailed
           \<or> (\<exists>st b. schema_api w c = Response st b \<and> \<not> is_success st)
           \<or> (\<exists>st. schema_api w c = Response st None)
           \<or> (\<exists>st j e. schema_api w c = Response st (Some j) \<and> and_then (iterate j) table_names = Inl e)"
  shows "generate_sql w k nl c = ([SchemaCall c], Inr ([], ''Failed to fetch table structure''))
         \<and> chat_calls (fst (generate_sql w k nl c)) = []"
proof -
  obtain e where "snd (get_valid_tables w c) = Inl e"
    using get_valid_tables_fails [OF assms] by blast
  then have "generate_sql w k nl c = ([SchemaCall c], Inr ([], ''Failed to fetch table structure''))"
    by (rule generate_sql_schema_failure)
  then show ?thesis by (simp add: chat_calls_def)
qed

theorem schema_failure_short_circuits_witness:
  "generate_sql (scripted RequestFailed (chat_reply ''SELECT 1;'') RequestFailed) ''key'' ''q'' conn0
     = ([SchemaCall conn0], Inr ([], ''Failed to fetch table structure''))
   \<and> generate_sql (scripted (Response 500 (Some (JObj [(''error'', JStr ''boom'')]))) (chat_reply ''SELECT 1;'') RequestFailed)
        ''key'' ''q'' conn0
     = ([SchemaCall conn0], Inr ([], ''Failed to fetch table structure''))
   \<and> generate_sql (scripted (Response 200 None) (chat_reply ''SELECT 1;'') RequestFailed) ''key'' ''q'' conn0
     = ([SchemaCall conn0], Inr ([], ''Failed to fetch table structure''))
   \<and> generate_sql (scripted (Response 200 (Some (JObj [(''rowcount'', JInt 1)]))) (chat_reply ''SELECT 1;'') RequestFailed)
        ''key'' ''q'' conn0
     = ([SchemaCall conn0], Inr ([], ''Failed to fetch table structure''))"
  using schema_failure_short_circuits [of "scripted RequestFailed (chat_reply ''SELECT 1;'') RequestFailed" conn0 "''key''" "''q''"]
    schema_failure_short_circuits [of "scripted (Response 500 (Some (JObj [(''error'', JStr ''boom'')]))) (chat_reply ''SELECT 1;'') RequestFailed" conn0 "''key''" "''q''"]
    schema_failure_short_circuits [of "scripted (Response 200 None) (chat_reply ''SELECT 1;'') RequestFailed" conn0 "''key''" "''q''"]
    schema_failure_short_circuits [of "scripted (Response 200 (Some (JObj [(''rowcount'', JInt 1)]))) (chat_reply ''SELECT 1;'') RequestFailed" conn0 "''key''" "''q''"]
  by (simp add: scripted_def is_success_def)


section \<open>The two completion rounds, case by case\<close>

lemma post_json_error_kinds:
  assumes "post_json r = Inl e"
  shows "e = RequestError \<or> e = ValueError \<or> (\<exists>st. e = HTTPStatusError st)"
  using assms by (cases r) (auto split: if_splits option.splits)

lemma api_except_caught:
  assumes "e = RequestError \<or> e = ValueError \<or> (\<exists>st. e = HTTPStatusError st)"
  shows "\<exists>reason. reason \<noteq> [] \<and> api_except (Inl e) = Inr ([], reason)"
  using assms by auto

lemma api_except_uncaught:
  assumes "e = AttributeError \<or> e = KeyError \<or> e = TypeError"
  shows "api_except (Inl e) = Inl e"
  using assms by auto

lemma dict_get_error: "dict_get j k d = Inl e \<Longrightarrow> e = AttributeError"
  by (cases j) simp_all

lemma subscript_key_found:
  assumes "dict_get j k JNull = Inr v" and "truthy v"
  shows "subscript_key j k = Inr v"
  using assms by (cases j) (auto split: option.splits)

lemma first_response_content_error:
  assumes "first_response_content resp = Inl e"
  shows "e = AttributeError"
proof -
  show ?thesis
  proof (cases "dict_get resp ''choices'' (JArr [])")
    case (Inl a)
    with assms show ?thesis by (simp add: first_response_content_def dict_get_error)
  next
    case choices: (Inr choices)
    show ?thesis
    proof (cases "\<not> truthy choices \<or> \<not> is_list choices")
      case True
      with choices assms show ?thesis by (simp add: first_response_content_def)
    next
      case False
      then obtain x xs where ch: "choices = JArr (x # xs)"
        by (cases choices) (auto simp: neq_Nil_conv)
      show ?thesis
      proof (cases "dict_get x ''message'' JNull")
        case (Inl a)
        with choices ch assms show ?thesis
          by (simp add: first_response_content_def dict_get_error)
      next
        case msg: (Inr message)
        show ?thesis
        proof (cases "truthy message")
          case False
          with choices ch msg assms show ?thesis by (simp add: first_response_content_def)
        next
          case True
          with msg have "subscript_key x ''message'' = Inr message" by (rule subscript_key_found)
          with choices ch msg True assms have "dict_get message ''content'' (JStr []) = Inl e"
            by (cases "dict_get message ''content'' (JStr [])") (simp_all add: first_response_content_def)
          then show ?thesis by (rule dict_get_error)
        qed
      qed
    qed
  qed
qed

lemma subscript0_error:
  assumes "subscript0 j = Inl e" and "truthy j"
  shows "e = KeyError \<or> e = TypeError"
  using assms by (cases j rule: subscript0.cases) auto

lemma follow_up_response_content_error:
  assumes "follow_up_response_content resp = Inl e"
  shows "e = AttributeError \<or> e = KeyError \<or> e = TypeError"
proof (cases "dict_get resp ''choices'' (JArr [])")
  case (Inl a)
  with assms show ?thesis by (simp add: follow_up_response_content_def dict_get_error)
next
  case choices: (Inr choices)
  show ?thesis
  proof (cases "truthy choices")
    case False
    with choices assms show ?thesis by (simp add: follow_up_response_content_def)
  next
    case tr: True
    show ?thesis
    proof (cases "subscript0 choices")
      case (Inl a)
      with choices tr assms have "a = e" by (simp add: follow_up_response_content_def)
      with Inl tr subscript0_error show ?thesis by blast
    next
      case c0: (Inr x)
      show ?thesis
      proof (cases "dict_get x ''message'' JNull")
        case (Inl a)
        with choices tr c0 assms show ?thesis
          by (simp add: follow_up_response_content_def dict_get_error)
      next
        case msg: (Inr message)
        show ?thesis
        proof (cases "truthy message")
          case False
          with choices tr c0 msg assms show ?thesis
            by (simp add: follow_up_response_content_def)
        next
          case True
          with msg have "subscript_key x ''message'' = Inr message" by (rule subscript_key_found)
          with choices tr c0 msg True assms have "dict_get message ''content'' (JStr []) = Inl e"
            by (cases "dict_get message ''content'' (JStr [])")
               (simp_all add: follow_up_response_content_def)
          then show ?thesis using dict_get_error by blast
        qed
      qed
    qed
  qed
qed

lemma fst_follow_up:
  "fst (follow_up w k nl sp content) = [ChatCall (follow_up_payload w k nl sp content)]"
  by (simp add: follow_up_def Let_def)

lemma follow_up_post_failure:
  assumes "post_json (xai_api w (follow_up_payload w k nl sp content)) = Inl e"
  shows "snd (follow_up w k nl sp content) = Inl e"
  using assms by (simp add: follow_up_def Let_def)

lemma follow_up_shape_error:
  assumes "post_json (xai_api w (follow_up_payload w k nl sp content)) = Inr resp"
    and "follow_up_response_content resp = Inl e"
  shows "snd (follow_up w k nl sp content) = Inl e"
  using assms by (simp add: follow_up_def Let_def)

lemma follow_up_invalid_structure:
  assumes "post_json (xai_api w (follow_up_payload w k nl sp content)) = Inr resp"
    and "follow_up_response_content resp = Inr None"
  shows "snd (follow_up w k nl sp content) = Inr ([], ''Failed to determine error reason'')"
  using assms by (simp add: follow_up_def Let_def)

lemma follow_up_explanation:
  assumes "post_json (xai_api w (follow_up_payload w k nl sp content)) = Inr resp"
    and "follow_up_response_content resp = Inr (Some (JStr expl))"
  shows "snd (follow_up w k nl sp content) =
           Inr ([], if strip expl = [] then ''Failed to determine error reason'' else strip expl)"
  using assms by (simp add: follow_up_def Let_def)

lemma follow_up_not_str:
  assumes "post_json (xai_api w (follow_up_payload w k nl sp content)) = Inr resp"
    and "follow_up_response_content resp = Inr (Some v)" and "\<not> is_str v"
  shows "snd (follow_up w k nl sp content) = Inl AttributeError"
  using assms by (cases v) (simp_all add: follow_up_def Let_def)

lemma follow_up_result:
  "(\<exists>reason. reason \<noteq> [] \<and> api_except (snd (follow_up w k nl sp content)) = Inr ([], reason))
   \<or> (\<exists>e. (e = AttributeError \<or> e = KeyError \<or> e = TypeError)
          \<and> api_except (snd (follow_up w k nl sp content)) = Inl e)"
proof (cases "post_json (xai_api w (follow_up_payload w k nl sp content))")
  case (Inl e)
  then have "snd (follow_up w k nl sp content) = Inl e" by (rule follow_up_post_failure)
  moreover have "\<exists>reason. reason \<noteq> [] \<and> api_except (Inl e) = Inr ([], reason)"
    using Inl post_json_error_kinds api_except_caught by blast
  ultimately show ?thesis by simp
next
  case resp: (Inr resp)
  show ?thesis
  proof (cases "follow_up_response_content resp")
    case (Inl e)
    with resp have "snd (follow_up w k nl sp content) = Inl e" by (rule follow_up_shape_error)
    moreover have "e = AttributeError \<or> e = KeyError \<or> e = TypeError"
      using Inl by (rule follow_up_response_content_error)
    ultimately show ?thesis using api_except_uncaught by auto
  next
    case found: (Inr found)
    show ?thesis
    proof (cases found)
      case None
      with resp found show ?thesis by (simp add: follow_up_invalid_structure)
    next
      case (Some v)
      show ?thesis
      proof (cases "is_str v")
        case True
        then obtain expl where "v = JStr expl" by (cases v) auto
        with resp found Some show ?thesis by (simp add: follow_up_explanation)
      next
        case False
        with resp found Some have "snd (follow_up w k nl sp content) = Inl AttributeError"
          by (simp add: follow_up_not_str)
        then show ?thesis by simp
      qed
    qed
  qed
qed

lemma completion_post_failure:
  assumes "post_json (xai_api w (first_payload w k nl sp)) = Inl e"
  shows "completion w k nl sp = ([ChatCall (first_payload w k nl sp)], Inl e)"
  using assms by (simp add: completion_def Let_def)

lemma completion_shape_error:
  assumes "post_json (xai_api w (first_payload w k nl sp)) = Inr resp"
    and "first_response_content resp = Inl e"
  shows "completion w k nl sp = ([ChatCall (first_payload w k nl sp)], Inl e)"
  using assms by (simp add: completion_def Let_def)

lemma completion_invalid_structure:
  assumes "post_json (xai_api w (first_payload w k nl sp)) = Inr resp"
    and "first_response_content resp = Inr None"
  shows "completion w k nl sp =
           ([ChatCall (first_payload w k nl sp)], Inr ([], ''Invalid API response structure''))"
  using assms by (simp add: completion_def Let_def)

lemma completion_not_str:
  assumes "post_json (xai_api w (first_payload w k nl sp)) = Inr resp"
    and "first_response_content resp = Inr (Some v)" and "\<not> is_str v"
  shows "completion w k nl sp = ([ChatCall (first_payload w k nl sp)], Inl AttributeError)"
  using assms by (cases v) (simp_all add: completion_def Let_def)

lemma completion_content:
  assumes "post_json (xai_api w (first_payload w k nl sp)) = Inr resp"
    and "first_response_content resp = Inr (Some (JStr content))"
  shows "completion w k nl sp =
           (if is_sentinel (sanitize content)
            then ([ChatCall (first_payload w k nl sp),
                   ChatCall (follow_up_payload w k nl sp content)],
                  snd (follow_up w k nl sp content))
            else ([ChatCall (first_payload w k nl sp)], Inr (sanitize content, [])))"
proof -
  obtain log r where fu: "follow_up w k nl sp content = (log, r)"
    by (cases "follow_up w k nl sp content")
  with fst_follow_up [of w k nl sp content]
  have "log = [ChatCall (follow_up_payload w k nl sp content)]" by simp
  with fu assms show ?thesis by (simp add: completion_def Let_def)
qed


section \<open>Runs of the generation client\<close>

lemma scripted_schema_ok:
  "snd (get_valid_tables (scripted (Response 200 (Some schema_rows)) a b) c)
     = Inr ({''customers''}, schema_rows)"
  by (simp add: get_valid_tables_def fetch_table_structure_def scripted_def schema_rows_def
      is_success_def char_lower_def)

lemma scripted_render [simp]: "render_prompt (scripted s a b) ts = ''prompt''"
  by (simp add: scripted_def)

lemma scripted_first:
  "post_json (xai_api (scripted s (chat_reply content) b) (first_payload w' k nl sp))
     = Inr (chat_body content)"
  by (simp add: scripted_def first_payload_def chat_reply_def is_success_def)

lemma scripted_first_raw:
  "xai_api (scripted s a b) (first_payload w' k nl sp) = a"
  by (simp add: scripted_def first_payload_def)

lemma scripted_second_raw:
  "xai_api (scripted s a b) (follow_up_payload w' k nl sp content) = b"
  by (simp add: scripted_def follow_up_payload_def)

lemma first_chat_body: "first_response_content (chat_body content) = Inr (Some (JStr content))"
  by (simp add: first_response_content_def chat_body_def)

lemma follow_up_chat_body:
  "follow_up_response_content (chat_body content) = Inr (Some (JStr content))"
  by (simp add: follow_up_response_content_def chat_body_def)

lemma generate_sql_content:
  assumes "snd (get_valid_tables w c) = Inr (tables, ts)"
    and "post_json (xai_api w (first_payload w k nl (render_prompt w ts))) = Inr resp"
    and "first_response_content resp = Inr (Some (JStr content))"
  shows "generate_sql w k nl c =
           (if is_sentinel (sanitize content)
            then ([SchemaCall c, ChatCall (first_payload w k nl (render_prompt w ts)),
                   ChatCall (follow_up_payload w k nl (render_prompt w ts) content)],
                  api_except (snd (follow_up w k nl (render_prompt w ts) content)))
            else ([SchemaCall c, ChatCall (first_payload w k nl (render_prompt w ts))],
                  Inr (sanitize content, [])))"
  by (simp add: generate_sql_schema_ok [OF assms(1)] completion_content [OF assms(2,3)])

lemma sanitize_X: "sanitize ''X'' = ''X''"
  by (simp add: sanitize_def strip_def strip_quotes_def strip_chars_def isspace_def dquote_def backslash_def)
lemma sanitize_X_more: "sanitize ''X, additional text'' = ''X, additional text''"
  by (simp add: sanitize_def strip_def strip_quotes_def strip_chars_def isspace_def dquote_def backslash_def)
lemma sanitize_X_quoted: "sanitize [dquote, CHR ''X'', dquote] = ''X''"
  by (simp add: sanitize_def strip_def strip_quotes_def strip_chars_def isspace_def dquote_def backslash_def)
lemma sanitize_select: "sanitize ''SELECT 1;'' = ''SELECT 1;''"
  by (simp add: sanitize_def strip_def strip_quotes_def strip_chars_def isspace_def dquote_def backslash_def)
lemma sanitize_lower_x: "sanitize ''x'' = ''x''"
  by (simp add: sanitize_def strip_def strip_quotes_def strip_chars_def isspace_def dquote_def backslash_def)

text \<open>
  Claim C3. After a successful schema fetch and a well-formed first completion, the
  follow-up request is sent (two calls to the completion service) exactly when the
  sanitized text equals "X" or has the prefix "X". The completions "X",
  "X, additional text" and the quoted "X" take that path; "SELECT 1;" does not and is
  returned as the SQL after a single call; the comparison is case-sensitive ("x" is no
  sentinel).
\<close>

theorem sentinel_detection:
  assumes "snd (get_valid_tables w c) = Inr (tables, ts)"
    and "post_json (xai_api w (first_payload w k nl (render_prompt w ts))) = Inr resp"
    and "first_response_content resp = Inr (Some (JStr content))"
  shows "((length (chat_calls (fst (generate_sql w k nl c))) = 2)
            = (sanitize content = ''X'' \<or> prefix ''X'' (sanitize content)))
       \<and> (content = ''X'' \<or> content = ''X, additional text'' \<or> content = [dquote, CHR ''X'', dquote]
            \<longrightarrow> length (chat_calls (fst (generate_sql w k nl c))) = 2)
       \<and> (content = ''SELECT 1;''
            \<longrightarrow> generate_sql w k nl c =
                  ([SchemaCall c, ChatCall (first_payload w k nl (render_prompt w ts))],
                   Inr (''SELECT 1;'', [])))
       \<and> (content = ''x'' \<longrightarrow> length (chat_calls (fst (generate_sql w k nl c))) = 1)"
proof -
  note run = generate_sql_content [OF assms]
  have calls: "length (chat_calls (fst (generate_sql w k nl c)))
                 = (if is_sentinel (sanitize content) then 2 else 1)"
    by (simp add: run chat_calls_def)
  have decide: "is_sentinel (sanitize content)
                  = (sanitize content = ''X'' \<or> prefix ''X'' (sanitize content))"
    by (simp add: is_sentinel_def startswith_def)
  have "is_sentinel (sanitize ''X'')" "is_sentinel (sanitize ''X, additional text'')"
    "is_sentinel (sanitize [dquote, CHR ''X'', dquote])"
    "\<not> is_sentinel (sanitize ''SELECT 1;'')" "\<not> is_sentinel (sanitize ''x'')"
    by (simp_all add: sanitize_X sanitize_X_more sanitize_X_quoted sanitize_select
        sanitize_lower_x is_sentinel_def startswith_def)
  then show ?thesis
    using calls decide run by (auto simp: sanitize_select)
qed

theorem sentinel_detection_witness:
  "length (chat_calls (fst (generate_sql
      (scripted (Response 200 (Some schema_rows)) (chat_reply [dquote, CHR ''X'', dquote])
         (chat_reply ''Table does not exist''))
      ''key'' ''q'' conn0))) = 2"
proof -
  let ?w = "scripted (Response 200 (Some schema_rows)) (chat_reply [dquote, CHR ''X'', dquote])
         (chat_reply ''Table does not exist'')"
  have schema: "snd (get_valid_tables ?w conn0) = Inr ({''customers''}, schema_rows)"
    by (rule scripted_schema_ok)
  have first: "post_json (xai_api ?w (first_payload ?w ''key'' ''q'' (render_prompt ?w schema_rows)))
                 = Inr (chat_body [dquote, CHR ''X'', dquote])"
    by (rule scripted_first)
  show ?thesis
    using sentinel_detection [OF schema first first_chat_body] by simp
qed

lemma generate_sql_first_failure:
  assumes "snd (get_valid_tables w c) = Inr (tables, ts)"
    and "post_json (xai_api w (first_payload w k nl (render_prompt w ts))) = Inl e"
  shows "generate_sql w k nl c =
           ([SchemaCall c, ChatCall (first_payload w k nl (render_prompt w ts))],
            api_except (Inl e))"
  by (simp add: generate_sql_schema_ok [OF assms(1)] completion_post_failure [OF assms(2)])

lemma generate_sql_first_invalid:
  assumes "snd (get_valid_tables w c) = Inr (tables, ts)"
    and "post_json (xai_api w (first_payload w k nl (render_prompt w ts))) = Inr resp"
    and "first_response_content resp = Inr None"
  shows "generate_sql w k nl c =
           ([SchemaCall c, ChatCall (first_payload w k nl (render_prompt w ts))],
            Inr ([], ''Invalid API response structure''))"
  by (simp add: generate_sql_schema_ok [OF assms(1)] completion_invalid_structure [OF assms(2,3)])

lemma generate_sql_sentinel:
  assumes "snd (get_valid_tables w c) = Inr (tables, ts)"
    and "post_json (xai_api w (first_payload w k nl (render_prompt w ts))) = Inr resp"
    and "first_response_content resp = Inr (Some (JStr content))"
    and "is_sentinel (sanitize content)"
  shows "snd (generate_sql w k nl c)
           = api_except (snd (follow_up w k nl (render_prompt w ts) content))"
  by (simp add: generate_sql_content [OF assms(1,2,3)] assms(4))

text \<open>
  Claim C1. The invariant fails on an empty first completion: the schema fetch succeeds,
  the completion service answers 200 with \<^verbatim>\<open>{"choices": [{"message": {"content": ""}}]}\<close>,
  and \<^verbatim>\<open>generate_sql\<close> returns the pair of two empty strings. Only the follow-up path
  replaces an empty reason by the default.
\<close>

theorem empty_completion_both_empty:
  "snd (generate_sql (scripted (Response 200 (Some schema_rows)) (chat_reply []) RequestFailed)
          ''key'' ''q'' conn0) = Inr ([], [])"
proof -
  let ?w = "scripted (Response 200 (Some schema_rows)) (chat_reply []) RequestFailed"
  have schema: "snd (get_valid_tables ?w conn0) = Inr ({''customers''}, schema_rows)"
    by (rule scripted_schema_ok)
  have first: "post_json (xai_api ?w (first_payload ?w ''key'' ''q'' (render_prompt ?w schema_rows)))
                 = Inr (chat_body [])"
    by (rule scripted_first)
  have "sanitize [] = []"
    by (simp add: sanitize_def strip_def strip_quotes_def strip_chars_def)
  then show ?thesis
    by (simp add: generate_sql_content [OF schema first first_chat_body] is_sentinel_def
        startswith_def)
qed

text \<open>
  Claim C6. A first response whose message has no \<^verbatim>\<open>content\<close> key,
  \<^verbatim>\<open>{"choices": [{"message": {"role": "assistant"}}]}\<close>, passes the structure check:
  the content defaults to the empty string and the outcome is the pair of two empty
  strings, not the reason "Invalid API response structure".
\<close>

theorem missing_content_both_empty:
  "snd (generate_sql
          (scripted (Response 200 (Some schema_rows)) (Response 200 (Some no_content_body))
             RequestFailed)
          ''key'' ''q'' conn0) = Inr ([], [])"
proof -
  let ?w = "scripted (Response 200 (Some schema_rows)) (Response 200 (Some no_content_body))
             RequestFailed"
  have schema: "snd (get_valid_tables ?w conn0) = Inr ({''customers''}, schema_rows)"
    by (rule scripted_schema_ok)
  have first: "post_json (xai_api ?w (first_payload ?w ''key'' ''q'' (render_prompt ?w schema_rows)))
                 = Inr no_content_body"
    by (simp add: scripted_first_raw is_success_def)
  have content: "first_response_content no_content_body = Inr (Some (JStr []))"
    by (simp add: first_response_content_def no_content_body_def)
  have "sanitize [] = []"
    by (simp add: sanitize_def strip_def strip_quotes_def strip_chars_def)
  then show ?thesis
    by (simp add: generate_sql_content [OF schema first content] is_sentinel_def startswith_def)
qed

text \<open>
  Claim C4. On the sentinel path (the sanitized first completion is "X" or starts with
  "X", whatever follows), every outcome has the empty string as its SQL and a non-empty
  reason; the only other way the method ends is an exception it does not catch
  (AttributeError, KeyError or TypeError on an ill-shaped follow-up response). An outcome
  is produced when the follow-up request fails in transport, by status or in parsing,
  when its structure check fails, and when it carries a text.
\<close>

theorem sentinel_path_sql_empty:
  assumes "snd (get_valid_tables w c) = Inr (tables, ts)"
    and "post_json (xai_api w (first_payload w k nl (render_prompt w ts))) = Inr resp"
    and "first_response_content resp = Inr (Some (JStr content))"
    and "is_sentinel (sanitize content)"
  shows "((\<exists>reason. reason \<noteq> [] \<and> snd (generate_sql w k nl c) = Inr ([], reason))
          \<or> (\<exists>e. (e = AttributeError \<or> e = KeyError \<or> e = TypeError)
                 \<and> snd (generate_sql w k nl c) = Inl e))
       \<and> (\<forall>e. post_json (xai_api w (follow_up_payload w k nl (render_prompt w ts) content)) = Inl e
              \<longrightarrow> (\<exists>reason. snd (generate_sql w k nl c) = Inr ([], reason)))
       \<and> (\<forall>resp2. post_json (xai_api w (follow_up_payload w k nl (render_prompt w ts) content))
                     = Inr resp2
                   \<and> follow_up_response_content resp2 = Inr None
              \<longrightarrow> (\<exists>reason. snd (generate_sql w k nl c) = Inr ([], reason)))
       \<and> (\<forall>resp2 expl. post_json (xai_api w (follow_up_payload w k nl (render_prompt w ts) content))
                     = Inr resp2
                   \<and> follow_up_response_content resp2 = Inr (Some (JStr expl))
              \<longrightarrow> (\<exists>reason. snd (generate_sql w k nl c) = Inr ([], reason)))"
proof -
  note run = generate_sql_sentinel [OF assms]
  have shape: "(\<exists>reason. reason \<noteq> [] \<and> snd (generate_sql w k nl c) = Inr ([], reason))
          \<or> (\<exists>e. (e = AttributeError \<or> e = KeyError \<or> e = TypeError)
                 \<and> snd (generate_sql w k nl c) = Inl e)"
    unfolding run by (rule follow_up_result)
  have transport: "\<exists>reason. snd (generate_sql w k nl c) = Inr ([], reason)"
    if "post_json (xai_api w (follow_up_payload w k nl (render_prompt w ts) content)) = Inl e" for e
  proof -
    have "\<exists>reason. reason \<noteq> [] \<and> api_except (Inl e) = Inr ([], reason)"
      using that post_json_error_kinds api_except_caught by blast
    then show ?thesis by (auto simp: run follow_up_post_failure [OF that])
  qed
  have structural: "\<exists>reason. snd (generate_sql w k nl c) = Inr ([], reason)"
    if "post_json (xai_api w (follow_up_payload w k nl (render_prompt w ts) content)) = Inr resp2"
      "follow_up_response_content resp2 = Inr None" for resp2
    by (simp add: run follow_up_invalid_structure [OF that])
  have explained: "\<exists>reason. snd (generate_sql w k nl c) = Inr ([], reason)"
    if "post_json (xai_api w (follow_up_payload w k nl (render_prompt w ts) content)) = Inr resp2"
      "follow_up_response_content resp2 = Inr (Some (JStr expl))" for resp2 expl
    by (simp add: run follow_up_explanation [OF that])
  show ?thesis using shape transport structural explained by blast
qed

theorem sentinel_path_sql_empty_witness:
  "\<exists>reason. snd (generate_sql
      (scripted (Response 200 (Some schema_rows)) (chat_reply ''X, additional text'')
         (Response 503 None))
      ''key'' ''q'' conn0) = Inr ([], reason)"
proof -
  let ?w = "scripted (Response 200 (Some schema_rows)) (chat_reply ''X, additional text'')
         (Response 503 None)"
  have schema: "snd (get_valid_tables ?w conn0) = Inr ({''customers''}, schema_rows)"
    by (rule scripted_schema_ok)
  have first: "post_json (xai_api ?w (first_payload ?w ''key'' ''q'' (render_prompt ?w schema_rows)))
                 = Inr (chat_body ''X, additional text'')"
    by (rule scripted_first)
  have sentinel: "is_sentinel (sanitize ''X, additional text'')"
    by (simp add: sanitize_X_more is_sentinel_def startswith_def)
  have second: "post_json (xai_api ?w (follow_up_payload ?w ''key'' ''q''
                   (render_prompt ?w schema_rows) ''X, additional text''))
                 = Inl (HTTPStatusError 503)"
    by (simp add: scripted_second_raw is_success_def)
  show ?thesis
    using sentinel_path_sql_empty [OF schema first first_chat_body sentinel] second by blast
qed

text \<open>
  Claim C7. On the sentinel path, with a follow-up response that carries a text, the
  reason is that text trimmed of surrounding whitespace, or the default
  "Failed to determine error reason" when nothing is left; the SQL is empty.
\<close>

theorem follow_up_reason:
  assumes "snd (get_valid_tables w c) = Inr (tables, ts)"
    and "post_json (xai_api w (first_payload w k nl (render_prompt w ts))) = Inr resp"
    and "first_response_content resp = Inr (Some (JStr content))"
    and "is_sentinel (sanitize content)"
    and "post_json (xai_api w (follow_up_payload w k nl (render_prompt w ts) content)) = Inr resp2"
    and "follow_up_response_content resp2 = Inr (Some (JStr expl))"
  shows "snd (generate_sql w k nl c) =
           Inr ([], if strip expl = [] then ''Failed to determine error reason'' else strip expl)"
  by (simp add: generate_sql_sentinel [OF assms(1,2,3,4)] follow_up_explanation [OF assms(5,6)])

theorem follow_up_reason_witness:
  "snd (generate_sql
      (scripted (Response 200 (Some schema_rows)) (chat_reply ''X'') (chat_reply ''   ''))
      ''key'' ''q'' conn0) = Inr ([], ''Failed to determine error reason'')
   \<and> snd (generate_sql
      (scripted (Response 200 (Some schema_rows)) (chat_reply ''X'')
         (chat_reply '' Table does not exist  ''))
      ''key'' ''q'' conn0) = Inr ([], ''Table does not exist'')"
proof -
  let ?w1 = "scripted (Response 200 (Some schema_rows)) (chat_reply ''X'') (chat_reply ''   '')"
  let ?w2 = "scripted (Response 200 (Some schema_rows)) (chat_reply ''X'')
         (chat_reply '' Table does not exist  '')"
  have sentinel: "is_sentinel (sanitize ''X'')"
    by (simp add: sanitize_X is_sentinel_def)
  have schema1: "snd (get_valid_tables ?w1 conn0) = Inr ({''customers''}, schema_rows)"
    by (rule scripted_schema_ok)
  have first1: "post_json (xai_api ?w1 (first_payload ?w1 ''key'' ''q'' (render_prompt ?w1 schema_rows)))
                 = Inr (chat_body ''X'')"
    by (rule scripted_first)
  have second1: "post_json (xai_api ?w1 (follow_up_payload ?w1 ''key'' ''q''
                   (render_prompt ?w1 schema_rows) ''X'')) = Inr (chat_body ''   '')"
    by (simp add: scripted_second_raw chat_reply_def is_success_def)
  have schema2: "snd (get_valid_tables ?w2 conn0) = Inr ({''customers''}, schema_rows)"
    by (rule scripted_schema_ok)
  have first2: "post_json (xai_api ?w2 (first_payload ?w2 ''key'' ''q'' (render_prompt ?w2 schema_rows)))
                 = Inr (chat_body ''X'')"
    by (rule scripted_first)
  have second2: "post_json (xai_api ?w2 (follow_up_payload ?w2 ''key'' ''q''
                   (render_prompt ?w2 schema_rows) ''X'')) = Inr (chat_body '' Table does not exist  '')"
    by (simp add: scripted_second_raw chat_reply_def is_success_def)
  have s1: "strip ''   '' = []" by (simp add: strip_def strip_chars_def isspace_def)
  have s2: "strip '' Table does not exist  '' = ''Table does not exist''"
    by (simp add: strip_def strip_chars_def isspace_def)
  show ?thesis
    using follow_up_reason [OF schema1 first1 first_chat_body sentinel second1 follow_up_chat_body]
      follow_up_reason [OF schema2 first2 first_chat_body sentinel second2 follow_up_chat_body]
    by (simp add: s1 s2)
qed


text \<open>
  Claim C9, as stated, fails: a connection failure of the follow-up request gives the
  reason "API request failed", the very reason a connection failure of the first request
  gives. Both requests sit in one \<^verbatim>\<open>try\<close> with one set of handlers.
\<close>

theorem follow_up_transport_reason_not_distinct:
  "snd (generate_sql (scripted (Response 200 (Some schema_rows)) (chat_reply ''X'') RequestFailed)
          ''key'' ''q'' conn0) = Inr ([], ''API request failed'')
   \<and> snd (generate_sql (scripted (Response 200 (Some schema_rows)) RequestFailed RequestFailed)
          ''key'' ''q'' conn0) = Inr ([], ''API request failed'')"
proof -
  let ?w = "scripted (Response 200 (Some schema_rows)) (chat_reply ''X'') RequestFailed"
  let ?w1 = "scripted (Response 200 (Some schema_rows)) RequestFailed RequestFailed"
  have schema: "snd (get_valid_tables ?w conn0) = Inr ({''customers''}, schema_rows)"
    by (rule scripted_schema_ok)
  have first: "post_json (xai_api ?w (first_payload ?w ''key'' ''q'' (render_prompt ?w schema_rows)))
                 = Inr (chat_body ''X'')"
    by (rule scripted_first)
  have sentinel: "is_sentinel (sanitize ''X'')"
    by (simp add: sanitize_X is_sentinel_def)
  have second: "post_json (xai_api ?w (follow_up_payload ?w ''key'' ''q''
                   (render_prompt ?w schema_rows) ''X'')) = Inl RequestError"
    by (simp add: scripted_second_raw)
  have a: "snd (generate_sql ?w ''key'' ''q'' conn0) = Inr ([], ''API request failed'')"
    using generate_sql_sentinel [OF schema first first_chat_body sentinel]
      follow_up_post_failure [OF second]
    by simp
  have schema1: "snd (get_valid_tables ?w1 conn0) = Inr ({''customers''}, schema_rows)"
    by (rule scripted_schema_ok)
  have first1: "post_json (xai_api ?w1 (first_payload ?w1 ''key'' ''q'' (render_prompt ?w1 schema_rows)))
                 = Inl RequestError"
    by (simp add: scripted_first_raw)
  have b: "snd (generate_sql ?w1 ''key'' ''q'' conn0) = Inr ([], ''API request failed'')"
    by (simp add: generate_sql_first_failure [OF schema1 first1])
  from a b show ?thesis by simp
qed

text \<open>
  Claim C9, amended. When the follow-up request fails, a connection failure or timeout,
  an HTTP status failure and a body that does not parse give the same reason as the same
  failure of the first request ("API request failed", "API error: <status>",
  "Invalid API response format"); only a follow-up response that fails the structure check
  gives a reason of its own, "Failed to determine error reason", where the first response
  gives "Invalid API response structure".
\<close>

theorem follow_up_failure_reasons:
  assumes "snd (get_valid_tables w c) = Inr (tables, ts)"
    and "post_json (xai_api w (first_payload w k nl (render_prompt w ts))) = Inr resp"
    and "first_response_content resp = Inr (Some (JStr content))"
    and "is_sentinel (sanitize content)"
    and "snd (get_valid_tables w1 c1) = Inr (tables1, ts1)"
  shows "(post_json (xai_api w (follow_up_payload w k nl (render_prompt w ts) content))
            = Inl RequestError
          \<longrightarrow> snd (generate_sql w k nl c) = Inr ([], ''API request failed''))
       \<and> (\<forall>st. post_json (xai_api w (follow_up_payload w k nl (render_prompt w ts) content))
                  = Inl (HTTPStatusError st)
              \<longrightarrow> snd (generate_sql w k nl c) = Inr ([], ''API error: '' @ str_of_nat st))
       \<and> (post_json (xai_api w (follow_up_payload w k nl (render_prompt w ts) content))
            = Inl ValueError
          \<longrightarrow> snd (generate_sql w k nl c) = Inr ([], ''Invalid API response format''))
       \<and> (\<forall>e. post_json (xai_api w (follow_up_payload w k nl (render_prompt w ts) content)) = Inl e
                \<and> post_json (xai_api w1 (first_payload w1 k1 nl1 (render_prompt w1 ts1))) = Inl e
              \<longrightarrow> snd (generate_sql w k nl c) = snd (generate_sql w1 k1 nl1 c1))
       \<and> (\<forall>resp2. post_json (xai_api w (follow_up_payload w k nl (render_prompt w ts) content))
                     = Inr resp2
                   \<and> follow_up_response_content resp2 = Inr None
              \<longrightarrow> snd (generate_sql w k nl c) = Inr ([], ''Failed to determine error reason''))
       \<and> (\<forall>resp1. post_json (xai_api w1 (first_payload w1 k1 nl1 (render_prompt w1 ts1))) = Inr resp1
                   \<and> first_response_content resp1 = Inr None
              \<longrightarrow> snd (generate_sql w1 k1 nl1 c1) = Inr ([], ''Invalid API response structure''))"
proof -
  note run = generate_sql_sentinel [OF assms(1,2,3,4)]
  have fail: "snd (generate_sql w k nl c) = api_except (Inl e)"
    if "post_json (xai_api w (follow_up_payload w k nl (render_prompt w ts) content)) = Inl e" for e
    by (simp add: run follow_up_post_failure [OF that])
  have fail1: "snd (generate_sql w1 k1 nl1 c1) = api_except (Inl e)"
    if "post_json (xai_api w1 (first_payload w1 k1 nl1 (render_prompt w1 ts1))) = Inl e" for e
    by (simp add: generate_sql_first_failure [OF assms(5) that])
  have structural: "snd (generate_sql w k nl c) = Inr ([], ''Failed to determine error reason'')"
    if "post_json (xai_api w (follow_up_payload w k nl (render_prompt w ts) content)) = Inr resp2"
      "follow_up_response_content resp2 = Inr None" for resp2
    by (simp add: run follow_up_invalid_structure [OF that])
  have structural1: "snd (generate_sql w1 k1 nl1 c1) = Inr ([], ''Invalid API response structure'')"
    if "post_json (xai_api w1 (first_payload w1 k1 nl1 (render_prompt w1 ts1))) = Inr resp1"
      "first_response_content resp1 = Inr None" for resp1
    by (simp add: generate_sql_first_invalid [OF assms(5) that])
  show ?thesis
    using fail fail1 structural structural1 by (auto simp del: str_of_nat.simps)
qed

theorem follow_up_failure_reasons_witness:
  "snd (generate_sql (scripted (Response 200 (Some schema_rows)) (chat_reply ''X'') (Response 429 None))
          ''key'' ''q'' conn0) = Inr ([], ''API error: 429'')"
proof -
  let ?w = "scripted (Response 200 (Some schema_rows)) (chat_reply ''X'') (Response 429 None)"
  have schema: "snd (get_valid_tables ?w conn0) = Inr ({''customers''}, schema_rows)"
    by (rule scripted_schema_ok)
  have first: "post_json (xai_api ?w (first_payload ?w ''key'' ''q'' (render_prompt ?w schema_rows)))
                 = Inr (chat_body ''X'')"
    by (rule scripted_first)
  have sentinel: "is_sentinel (sanitize ''X'')"
    by (simp add: sanitize_X is_sentinel_def)
  have second: "post_json (xai_api ?w (follow_up_payload ?w ''key'' ''q''
                   (render_prompt ?w schema_rows) ''X'')) = Inl (HTTPStatusError 429)"
    by (simp add: scripted_second_raw is_success_def)
  have digits: "str_of_nat 429 = ''429''" by simp
  show ?thesis
    using follow_up_failure_reasons [OF schema first first_chat_body sentinel schema] second
    by (simp only: digits) simp
qed


section \<open>The endpoint\<close>

lemma run_client_response:
  "headers (snd (run_client w q c)) = cors
   \<and> (statusCode (snd (run_client w q c)) = 200 \<or> statusCode (snd (run_client w q c)) = 502)
   \<and> (statusCode (snd (run_client w q c)) = 200 \<longrightarrow>
        (\<exists>s. s \<noteq> [] \<and> body (snd (run_client w q c)) = Outcome s [])
        \<or> (\<exists>reason. body (snd (run_client w q c)) = Outcome [] reason))"
  by (auto simp: run_client_def reply_def cors_def split: sum.splits prod.splits)

lemma handle_response:
  assumes "handle w ev = (log, Inr r)"
  shows "headers r = cors
         \<and> (statusCode r = 200 \<or> statusCode r = 400 \<or> statusCode r = 502)
         \<and> (statusCode r = 200 \<longrightarrow>
              (\<exists>s. s \<noteq> [] \<and> body r = Outcome s []) \<or> (\<exists>reason. body r = Outcome [] reason))"
proof (cases "decode_body ev")
  case None
  with assms show ?thesis by (auto simp: handle_def reply_def cors_def)
next
  case (Some data)
  show ?thesis
  proof (cases "dict_get data ''query'' JNull")
    case (Inl e)
    with Some assms show ?thesis by (simp add: handle_def)
  next
    case (Inr q)
    show ?thesis
    proof (cases "\<exists>nl. q = JStr nl \<and> strip nl \<noteq> []")
      case False
      with Some Inr assms have "r = missing_query"
        by (cases q) (auto simp: handle_def split: if_splits)
      then show ?thesis by (simp add: missing_query_def reply_def cors_def)
    next
      case True
      then obtain nl where nl: "q = JStr nl" "strip nl \<noteq> []" by blast
      show ?thesis
      proof (cases "conn_params w data")
        case (Inl e)
        with Some Inr nl assms show ?thesis by (simp add: handle_def)
      next
        case c: (Inr c)
        with Some Inr nl assms have "r = snd (run_client w (strip nl) c)"
          by (auto simp: handle_def split: prod.splits)
        then show ?thesis using run_client_response [of w "strip nl" c] by auto
      qed
    qed
  qed
qed

lemma handle_missing_query:
  assumes "ev = Absent \<and> kvs = [] \<or> ev = Decoded (JObj kvs)"
    and "map_of kvs ''query'' = None
         \<or> (\<exists>v. map_of kvs ''query'' = Some v \<and> \<not> is_str v)
         \<or> (\<exists>nl. map_of kvs ''query'' = Some (JStr nl) \<and> strip nl = [])"
  shows "handle w ev = ([], Inr missing_query)"
proof -
  have data: "decode_body ev = Some (JObj kvs)" using assms(1) by auto
  from assms(2) consider (none) "map_of kvs ''query'' = None"
    | (other) v where "map_of kvs ''query'' = Some v" "\<not> is_str v"
    | (blank) nl where "map_of kvs ''query'' = Some (JStr nl)" "strip nl = []"
    by auto
  then show ?thesis
  proof cases
    case none
    with data show ?thesis by (simp add: handle_def)
  next
    case other
    with data show ?thesis by (cases v) (simp_all add: handle_def)
  next
    case blank
    with data show ?thesis by (simp add: handle_def)
  qed
qed

lemma handle_valid_request:
  assumes "decode_body ev = Some data" and "dict_get data ''query'' JNull = Inr (JStr nl)"
    and "strip nl \<noteq> []" and "conn_params w data = Inr c"
  shows "handle w ev = (fst (run_client w (strip nl) c), Inr (snd (run_client w (strip nl) c)))"
  using assms by (simp add: handle_def split: prod.splits)

text \<open>
  What the endpoint does for a request whose body is absent or decodes to a JSON object:
  when the query is missing, not a string or blank, it answers 400 and makes no network
  call. Every response it returns carries the header Access-Control-Allow-Origin: * and
  has status 200, 400 or 502; a 200 response has the body
  \<open>{sql_query: s, error_reason: ""}\<close> with \<open>s\<close> non-empty or
  \<open>{sql_query: "", error_reason: r}\<close>. When the connection parameters are read without
  an exception, an exception raised by the construction of the client or by the generation
  gives 502 with that exception, and a returned outcome gives 200 with one of the two
  bodies.
\<close>

lemma endpoint_contract:
  "(\<forall>kvs. (ev = Absent \<and> kvs = [] \<or> ev = Decoded (JObj kvs))
          \<and> (map_of kvs ''query'' = None
               \<or> (\<exists>v. map_of kvs ''query'' = Some v \<and> \<not> is_str v)
               \<or> (\<exists>nl. map_of kvs ''query'' = Some (JStr nl) \<and> strip nl = []))
        \<longrightarrow> (\<exists>b. handle w ev = ([], Inr (reply 400 b))))
   \<and> (\<forall>log r. handle w ev = (log, Inr r)
        \<longrightarrow> headers r = [(''Access-Control-Allow-Origin'', ''*'')]
            \<and> (statusCode r = 200 \<or> statusCode r = 400 \<or> statusCode r = 502)
            \<and> (statusCode r = 200 \<longrightarrow>
                 (\<exists>s. s \<noteq> [] \<and> body r = Outcome s []) \<or> (\<exists>reason. body r = Outcome [] reason)))
   \<and> (\<forall>data nl c. decode_body ev = Some data \<and> dict_get data ''query'' JNull = Inr (JStr nl)
          \<and> strip nl \<noteq> [] \<and> conn_params w data = Inr c
        \<longrightarrow> (\<forall>e. XAIClient (XAI_API_KEY w) = Inl e
                \<longrightarrow> handle w ev = ([], Inr (reply 502 (ErrorOf e))))
          \<and> (\<forall>api_key log e. XAIClient (XAI_API_KEY w) = Inr api_key
                  \<and> generate_sql w api_key (strip nl) c = (log, Inl e)
                \<longrightarrow> handle w ev = (log, Inr (reply 502 (ErrorOf e))))
          \<and> (\<forall>api_key log sql_query error_reason. XAIClient (XAI_API_KEY w) = Inr api_key
                  \<and> generate_sql w api_key (strip nl) c = (log, Inr (sql_query, error_reason))
                \<longrightarrow> handle w ev =
                      (log, Inr (reply 200 (if sql_query = [] then Outcome [] error_reason
                                            else Outcome sql_query [])))))"
proof -
  have bad: "\<exists>b. handle w ev = ([], Inr (reply 400 b))"
    if "ev = Absent \<and> kvs = [] \<or> ev = Decoded (JObj kvs)"
      "map_of kvs ''query'' = None
         \<or> (\<exists>v. map_of kvs ''query'' = Some v \<and> \<not> is_str v)
         \<or> (\<exists>nl. map_of kvs ''query'' = Some (JStr nl) \<and> strip nl = [])" for kvs
    using handle_missing_query [OF that] by (auto simp: missing_query_def)
  have resp: "headers r = [(''Access-Control-Allow-Origin'', ''*'')]
            \<and> (statusCode r = 200 \<or> statusCode r = 400 \<or> statusCode r = 502)
            \<and> (statusCode r = 200 \<longrightarrow>
                 (\<exists>s. s \<noteq> [] \<and> body r = Outcome s []) \<or> (\<exists>reason. body r = Outcome [] reason))"
    if "handle w ev = (log, Inr r)" for log r
    using handle_response [OF that] by (simp add: cors_def)
  have valid: "(\<forall>e. XAIClient (XAI_API_KEY w) = Inl e
                \<longrightarrow> handle w ev = ([], Inr (reply 502 (ErrorOf e))))
          \<and> (\<forall>api_key log e. XAIClient (XAI_API_KEY w) = Inr api_key
                  \<and> generate_sql w api_key (strip nl) c = (log, Inl e)
                \<longrightarrow> handle w ev = (log, Inr (reply 502 (ErrorOf e))))
          \<and> (\<forall>api_key log sql_query error_reason. XAIClient (XAI_API_KEY w) = Inr api_key
                  \<and> generate_sql w api_key (strip nl) c = (log, Inr (sql_query, error_reason))
                \<longrightarrow> handle w ev =
                      (log, Inr (reply 200 (if sql_query = [] then Outcome [] error_reason
                                            else Outcome sql_query []))))"
    if "decode_body ev = Some data" "dict_get data ''query'' JNull = Inr (JStr nl)"
      "strip nl \<noteq> []" "conn_params w data = Inr c" for data nl c
    by (simp add: handle_valid_request [OF that] run_client_def)
  show ?thesis
    apply (intro conjI allI impI)
    subgoal for kvs using bad [of kvs] by blast
    subgoal for log r using resp [of log r] by blast
    subgoal for log r using resp [of log r] by blast
    subgoal for log r using resp [of log r] by blast
    subgoal for data nl c e using valid [of data nl c] by blast
    subgoal for data nl c api_key log e using valid [of data nl c] by blast
    subgoal for data nl c api_key log sql_query error_reason using valid [of data nl c] by blast
    done
qed

lemma endpoint_contract_witness:
  "\<exists>b. handle (scripted (Response 200 (Some schema_rows)) (chat_reply ''SELECT 1;'') RequestFailed)
          (Decoded (JObj [(''query'', JStr ''   '')])) = ([], Inr (reply 400 b))"
proof -
  have blank: "strip ''   '' = []" by (simp add: strip_def strip_chars_def isspace_def)
  show ?thesis
    using endpoint_contract [of "Decoded (JObj [(''query'', JStr ''   '')])"
        "scripted (Response 200 (Some schema_rows)) (chat_reply ''SELECT 1;'') RequestFailed"]
      blank
    by simp
qed

text \<open>
  Claim C8. The contract fails where the handler raises outside its two \<^verbatim>\<open>try\<close>
  blocks. A body that decodes to a list or to null has no \<^verbatim>\<open>get\<close> (line 196), and a
  port that is null or an infinite number is refused by \<^verbatim>\<open>int\<close> (line 207): the
  handler ends with AttributeError, TypeError or OverflowError and returns no response,
  so no 400 for the missing query, no 502 for the internal error and no CORS header.
\<close>

theorem handle_raises_outside_try:
  "handle (scripted (Response 200 (Some schema_rows)) (chat_reply ''SELECT 1;'') RequestFailed)
     (Decoded (JArr [])) = ([], Inl AttributeError)
   \<and> handle (scripted (Response 200 (Some schema_rows)) (chat_reply ''SELECT 1;'') RequestFailed)
     (Decoded JNull) = ([], Inl AttributeError)
   \<and> handle (scripted (Response 200 (Some schema_rows)) (chat_reply ''SELECT 1;'') RequestFailed)
     (Decoded (JObj [(''query'', JStr ''list users''), (''port'', JNull)])) = ([], Inl TypeError)
   \<and> handle (scripted (Response 200 (Some schema_rows)) (chat_reply ''SELECT 1;'') RequestFailed)
     (Decoded (JObj [(''query'', JStr ''list users''), (''port'', JFloat Infinite)]))
       = ([], Inl OverflowError)"
proof -
  have q: "strip ''list users'' = ''list users''"
    by (simp add: strip_def strip_chars_def isspace_def)
  show ?thesis
    by (simp add: handle_def conn_params_def q scripted_def)
qed

section \<open>Sanitization\<close>

lemma dropWhile_all_append:
  "\<forall>x\<in>set xs. P x \<Longrightarrow> dropWhile P (xs @ ys) = dropWhile P ys"
  by (induction xs) auto

lemma strip_chars_core:
  assumes "\<forall>x\<in>set xs. P x" and "\<forall>y\<in>set ys. P y"
    and "core \<noteq> []" and "\<not> P (hd core)" and "\<not> P (last core)"
  shows "strip_chars P (xs @ core @ ys) = core"
proof -
  have front: "dropWhile P (xs @ core @ ys) = core @ ys"
    using assms(1,3,4) by (cases core) (simp_all add: dropWhile_all_append)
  have "\<forall>y\<in>set (rev ys). P y" using assms(2) by simp
  then have "dropWhile P (rev ys @ rev core) = dropWhile P (rev core)"
    by (rule dropWhile_all_append)
  also have "\<dots> = rev core"
    using assms(3,5) by (cases core rule: rev_cases) simp_all
  finally have "dropWhile P (rev ys @ rev core) = rev core" .
  with front show ?thesis by (simp add: strip_chars_def)
qed

lemma dquote_not_space: "\<not> isspace dquote"
  by (simp add: isspace_def dquote_def)

lemma strip_layers:
  assumes "\<forall>ch\<in>set ws1 \<union> set ws2. isspace ch"
    and "core \<noteq> []" and "\<not> isspace (hd core)" and "\<not> isspace (last core)"
  shows "strip (ws1 @ replicate m dquote @ core @ replicate n dquote @ ws2)
           = replicate m dquote @ core @ replicate n dquote"
proof -
  let ?mid = "replicate m dquote @ core @ replicate n dquote"
  have ne: "?mid \<noteq> []" using assms(2) by simp
  have h: "\<not> isspace (hd ?mid)"
    using assms(2,3) dquote_not_space by (cases m) (simp_all add: hd_append)
  have l: "\<not> isspace (last ?mid)"
    using assms(2,4) dquote_not_space by (cases n) (simp_all add: last_append)
  have "strip_chars isspace (ws1 @ ?mid @ ws2) = ?mid"
    using assms(1) ne h l by (intro strip_chars_core) auto
  then show ?thesis by (simp add: strip_def)
qed

lemma strip_quotes_layers:
  assumes "core \<noteq> []" and "hd core \<noteq> dquote" and "last core \<noteq> dquote"
  shows "strip_quotes (replicate m dquote @ core @ replicate n dquote) = core"
  unfolding strip_quotes_def using assms by (intro strip_chars_core) auto











lemma replace_escaped_hit:
  "str_replace [backslash, dquote] [] (backslash # dquote # s) = str_replace [backslash, dquote] [] s"
  by simp

lemma replace_escaped_miss:
  assumes "\<not> prefix [backslash, dquote] (a # s)"
  shows "str_replace [backslash, dquote] [] (a # s) = a # str_replace [backslash, dquote] [] s"
  using assms by auto

lemma backslash_not_dquote: "backslash \<noteq> dquote"
  by (simp add: backslash_def dquote_def)

lemma replace_escaped_append:
  "str_replace [backslash, dquote] [] (u @ [backslash, dquote] @ v)
     = str_replace [backslash, dquote] [] u @ str_replace [backslash, dquote] [] v"
proof (induction u rule: length_induct)
  case (1 u)
  show ?case
  proof (cases u)
    case Nil
    then show ?thesis by simp
  next
    case (Cons a u')
    show ?thesis
    proof (cases "prefix [backslash, dquote] (a # u')")
      case True
      then obtain u'' where u': "a = backslash" "u' = dquote # u''"
        by (cases u') auto
      have "length u'' < length u" using Cons u' by simp
      with 1 have "str_replace [backslash, dquote] [] (u'' @ [backslash, dquote] @ v)
               = str_replace [backslash, dquote] [] u'' @ str_replace [backslash, dquote] [] v"
        by blast
      with Cons u' show ?thesis by simp
    next
      case False
      have miss: "\<not> prefix [backslash, dquote] (a # u' @ [backslash, dquote] @ v)"
        using False backslash_not_dquote by (cases u') auto
      have "length u' < length u" using Cons by simp
      with 1 have ih: "str_replace [backslash, dquote] [] (u' @ [backslash, dquote] @ v)
               = str_replace [backslash, dquote] [] u' @ str_replace [backslash, dquote] [] v"
        by blast
      have "str_replace [backslash, dquote] [] (a # u' @ [backslash, dquote] @ v)
              = a # str_replace [backslash, dquote] [] (u' @ [backslash, dquote] @ v)"
        using miss by (rule replace_escaped_miss)
      moreover have "str_replace [backslash, dquote] [] (a # u')
              = a # str_replace [backslash, dquote] [] u'"
        using False by (rule replace_escaped_miss)
      ultimately show ?thesis using Cons ih by simp
    qed
  qed
qed

lemma replace_escaped_free:
  "\<not> sublist [backslash, dquote] u \<Longrightarrow> str_replace [backslash, dquote] [] u = u"
proof (induction u)
  case Nil
  then show ?case by simp
next
  case (Cons a u)
  then have miss: "\<not> prefix [backslash, dquote] (a # u)"
    and rest: "\<not> sublist [backslash, dquote] u"
    by (simp_all add: sublist_Cons_right)
  have "str_replace [backslash, dquote] [] (a # u) = a # str_replace [backslash, dquote] [] u"
    using miss by (rule replace_escaped_miss)
  also have "str_replace [backslash, dquote] [] u = u"
    using rest by (rule Cons.IH)
  finally show ?case .
qed

lemma replace_escaped_join:
  "\<forall>p\<in>set parts. \<not> sublist [backslash, dquote] p
     \<Longrightarrow> str_replace [backslash, dquote] [] (str_join [backslash, dquote] parts) = concat parts"
proof (induction "[backslash, dquote]" parts rule: str_join.induct)
  case 1
  then show ?case by simp
next
  case (2 p)
  then show ?case by (simp add: replace_escaped_free)
next
  case (3 p q ps)
  then have "str_replace [backslash, dquote] [] (str_join [backslash, dquote] (q # ps))
               = concat (q # ps)"
    by simp
  moreover have "str_replace [backslash, dquote] [] p = p"
    using 3 by (simp add: replace_escaped_free)
  ultimately show ?case
    using replace_escaped_append [of p "str_join [backslash, dquote] (q # ps)"] by simp
qed

text \<open>
  Occurrences inside the stripped text: if the text left by the two strips is cut at the
  occurrences of backslash, double quote into parts free of the sequence, the sanitized
  text is the concatenation of the parts, and it is the returned SQL whenever it is not
  the sentinel.
\<close>

lemma sanitize_deletes_escaped_quotes:
  assumes "strip_quotes (strip content) = str_join [backslash, dquote] parts"
    and "\<forall>p\<in>set parts. \<not> sublist [backslash, dquote] p"
  shows "sanitize content = concat parts
         \<and> (\<forall>w c tables ts k nl resp.
               snd (get_valid_tables w c) = Inr (tables, ts)
               \<and> post_json (xai_api w (first_payload w k nl (render_prompt w ts))) = Inr resp
               \<and> first_response_content resp = Inr (Some (JStr content))
               \<and> \<not> is_sentinel (concat parts)
             \<longrightarrow> snd (generate_sql w k nl c) = Inr (concat parts, []))"
proof -
  have s: "sanitize content = concat parts"
    using assms by (simp add: sanitize_def replace_escaped_join)
  have "snd (generate_sql w k nl c) = Inr (concat parts, [])"
    if "snd (get_valid_tables w c) = Inr (tables, ts)"
      "post_json (xai_api w (first_payload w k nl (render_prompt w ts))) = Inr resp"
      "first_response_content resp = Inr (Some (JStr content))"
      "\<not> is_sentinel (concat parts)" for w c tables ts k nl resp
    using that(4) by (simp add: generate_sql_content [OF that(1,2,3)] s)
  with s show ?thesis by blast
qed

lemma sanitize_deletes_escaped_quotes_witness:
  "sanitize ('' SELECT '' @ [backslash, dquote] @ ''name'' @ [backslash, dquote] @ '' FROM t;'')
     = ''SELECT name FROM t;''"
proof -
  let ?content = "'' SELECT '' @ [backslash, dquote] @ ''name'' @ [backslash, dquote] @ '' FROM t;''"
  have stripped: "strip_quotes (strip ?content)
                    = str_join [backslash, dquote] [''SELECT '', ''name'', '' FROM t;'']"
    by (simp add: strip_def strip_quotes_def strip_chars_def isspace_def dquote_def backslash_def)
  have free: "\<forall>p\<in>set [''SELECT '', ''name'', '' FROM t;'']. \<not> sublist [backslash, dquote] p"
    by (simp add: sublist_Cons_right backslash_def dquote_def)
  show ?thesis
    using sanitize_deletes_escaped_quotes [OF stripped free] by simp
qed

text \<open>
  Claim C10. Not every occurrence of backslash, double quote in the completion text is
  deleted: the quotes are stripped before the replacement runs, so an occurrence at the
  very end loses its quote and keeps its backslash, while one at the start is deleted
  whole. The completion made of \<open>a\<close>, the sequence, \<open>b\<close> and the sequence again
  is returned as \<open>ab\<close> followed by a backslash, not as the input with its
  occurrences removed; the text quote, backslash, quote, \<open>X\<close>, backslash, quote, quote
  becomes \<open>X\<close> followed by a backslash.
\<close>

theorem sanitize_keeps_trailing_backslash:
  "[CHR ''a'', backslash, dquote, CHR ''b'', backslash, dquote]
     = str_join [backslash, dquote] [''a'', ''b'', []]
   \<and> sanitize [CHR ''a'', backslash, dquote, CHR ''b'', backslash, dquote]
        = [CHR ''a'', CHR ''b'', backslash]
   \<and> sanitize [CHR ''a'', backslash, dquote, CHR ''b'', backslash, dquote]
        \<noteq> concat [''a'', ''b'', []]
   \<and> sanitize [dquote, backslash, dquote, CHR ''X'', backslash, dquote, dquote]
        = [CHR ''X'', backslash]
   \<and> snd (generate_sql
        (scripted (Response 200 (Some schema_rows))
           (chat_reply [CHR ''a'', backslash, dquote, CHR ''b'', backslash, dquote]) RequestFailed)
        ''key'' ''q'' conn0) = Inr ([CHR ''a'', CHR ''b'', backslash], [])"
proof -
  let ?content = "[CHR ''a'', backslash, dquote, CHR ''b'', backslash, dquote]"
  let ?w = "scripted (Response 200 (Some schema_rows)) (chat_reply ?content) RequestFailed"
  have s: "sanitize ?content = [CHR ''a'', CHR ''b'', backslash]"
    by (simp add: sanitize_def strip_def strip_quotes_def strip_chars_def isspace_def
      dquote_def backslash_def)
  have schema: "snd (get_valid_tables ?w conn0) = Inr ({''customers''}, schema_rows)"
    by (rule scripted_schema_ok)
  have first: "post_json (xai_api ?w (first_payload ?w ''key'' ''q'' (render_prompt ?w schema_rows)))
                 = Inr (chat_body ?content)"
    by (rule scripted_first)
  have run: "snd (generate_sql ?w ''key'' ''q'' conn0) = Inr ([CHR ''a'', CHR ''b'', backslash], [])"
    by (simp add: generate_sql_content [OF schema first first_chat_body] s is_sentinel_def
        startswith_def)
  have rest: "?content = str_join [backslash, dquote] [''a'', ''b'', []]
     \<and> sanitize ?content \<noteq> concat [''a'', ''b'', []]
     \<and> sanitize [dquote, backslash, dquote, CHR ''X'', backslash, dquote, dquote]
        = [CHR ''X'', backslash]"
    by (simp add: sanitize_def strip_def strip_quotes_def strip_chars_def isspace_def
      dquote_def backslash_def)
  from s run rest show ?thesis by blast
qed


end
